theory Spec2Isabelle
  imports Main "HOL-Library.AList"
begin

section \<open>The extend aspect of the taint tracker (AspectExtend.cpp)\<close>

text \<open>
  The file \<^verbatim>\<open>AspectExtend.cpp\<close> holds one function, \<^verbatim>\<open>api_extend_aspect\<close>: it
  appends to a byte array through the interpreter's own \<^verbatim>\<open>extend\<close> and then carries the
  taint ranges of both operands over to the grown byte array. The function is embedded
  below statement by statement as a function from the state before the call to the value
  returned and the state after it. Reference counts are not part of the state, so
  \<^verbatim>\<open>PyUnicode_FromString\<close> and \<^verbatim>\<open>Py_DecRef\<close> of the method name leave no trace.
\<close>

subsection \<open>Data\<close>

text \<open>
  An object is known by its identity (its address). A byte is a \<^typ>\<open>char\<close>, a byte
  string a \<^typ>\<open>string\<close>. Three kinds of objects are told apart: byte arrays, immutable
  byte strings, and objects such as integers and text strings, which the native
  \<^verbatim>\<open>bytearray.extend\<close> rejects as an addition and which, like immutable byte strings,
  have no \<^verbatim>\<open>extend\<close> method of their own. Such an object carries the value that
  \<^verbatim>\<open>Py_SIZE\<close> reads from it. Objects that bring their own \<^verbatim>\<open>extend\<close>, such as lists,
  are not modelled.
\<close>

type_synonym obj_id = nat
type_synonym source = nat

datatype pyobj = ByteArray string | Bytes string | Incompatible int

datatype py_exception = TypeError | AttributeError

text \<open>
  A taint range, with the three fields the specification gives it. The declaration of
  the range type is not part of the source at hand; offsets and lengths are unbounded
  integers here, as in the specification.
\<close>

record taint_range =
  start :: int
  length_tr :: int
  source :: source

type_synonym taint_record = "taint_range list"

text \<open>
  The tainting map is keyed by object identity. It is an association list with
  \<^const>\<open>map_of\<close> as lookup and \<^const>\<open>AList.update\<close> as insert-or-replace.
\<close>

type_synonym taint_map = "(obj_id \<times> taint_record) list"

datatype map_op = Lookup obj_id | Allocate | Store obj_id

text \<open>
  The state: the heap of objects, the interpreter's pending exception, the tainting map
  of the active context (\<open>None\<close> when \<^verbatim>\<open>get_tainting_map\<close> returns a null pointer), and
  the log of operations performed on the map, oldest first.
\<close>

record state =
  objects :: "obj_id \<Rightarrow> pyobj"
  exception :: "py_exception option"
  tainting_map :: "taint_map option"
  map_ops :: "map_op list"

text \<open>What a call returns: \<^verbatim>\<open>return nullptr\<close> or \<^verbatim>\<open>Py_RETURN_NONE\<close>.\<close>

datatype outcome = Return_nullptr | Py_RETURN_NONE

subsection \<open>The interpreter's primitives\<close>

text \<open>
  \<^verbatim>\<open>PyByteArray_Size\<close> returns \<^verbatim>\<open>Py_SIZE\<close> of its argument. That the argument is a
  byte array is only asserted, and the source does not test it either, so for any other
  object the call returns what \<^verbatim>\<open>Py_SIZE\<close> reads there and the function carries on.
\<close>

fun PyByteArray_Size :: "pyobj \<Rightarrow> int" where
  "PyByteArray_Size (ByteArray a) = int (length a)"
| "PyByteArray_Size (Bytes b) = int (length b)"
| "PyByteArray_Size (Incompatible n) = n"

text \<open>The bytes an object contributes when it is appended, if it can be appended.\<close>

fun as_bytes :: "pyobj \<Rightarrow> string option" where
  "as_bytes (ByteArray b) = Some b"
| "as_bytes (Bytes b) = Some b"
| "as_bytes (Incompatible n) = None"

text \<open>
  \<^verbatim>\<open>PyObject_CallMethodOneArg(candidate_text, "extend", to_add)\<close>. On a byte array
  the receiver grows in place by the bytes of the argument and keeps its identity; for an
  argument that cannot be appended the call sets \<^verbatim>\<open>TypeError\<close> and changes no object.
  A receiver of another kind has no such method: the call sets \<^verbatim>\<open>AttributeError\<close> and
  changes no object. The source discards the value the call returns, so only the state
  is modelled.
\<close>

definition PyObject_CallMethodOneArg_extend :: "obj_id \<Rightarrow> obj_id \<Rightarrow> state \<Rightarrow> state" where
  "PyObject_CallMethodOneArg_extend candidate_text to_add s =
     (case objects s candidate_text of
        ByteArray a \<Rightarrow>
          (case as_bytes (objects s to_add) of
             Some b \<Rightarrow> s\<lparr>objects := (objects s)(candidate_text := ByteArray (a @ b))\<rparr>
           | None \<Rightarrow> s\<lparr>exception := Some TypeError\<rparr>)
      | _ \<Rightarrow> s\<lparr>exception := Some AttributeError\<rparr>)"

subsection \<open>The tainting map and its records\<close>

text \<open>
  Modelled from the spec: \<^verbatim>\<open>initializer->get_tainting_map()\<close> is not in the source at
  hand. Section 6: \<open>get_active_map() -> optional Map-handle\<close>, nothing if no tracking
  context is active.
\<close>

definition get_tainting_map :: "state \<Rightarrow> taint_map option" where
  "get_tainting_map s = tainting_map s"

text \<open>
  Modelled from the spec: \<^verbatim>\<open>get_tainted_object\<close> is not in the source at hand.
  Section 6: \<open>map.lookup(identity) -> optional Taint Record\<close>, a non-owning read.
\<close>

definition get_tainted_object ::
  "obj_id \<Rightarrow> taint_map \<Rightarrow> state \<Rightarrow> taint_record option \<times> state" where
  "get_tainted_object obj tx_map s =
     (map_of tx_map obj, s\<lparr>map_ops := map_ops s @ [Lookup obj]\<rparr>)"

text \<open>
  Modelled from the spec: \<^verbatim>\<open>initializer->allocate_tainted_object\<close> is not in the source
  at hand. Section 6: \<open>map.allocate_record(from: optional Taint Record)\<close> returns a new,
  independently owned record, optionally seeded by cloning an existing one. Records are
  values here, so the clone is the record itself and the unseeded record has no ranges.
\<close>

definition allocate_tainted_object ::
  "taint_record option \<Rightarrow> state \<Rightarrow> taint_record \<times> state" where
  "allocate_tainted_object from s =
     ((case from of None \<Rightarrow> [] | Some ranges \<Rightarrow> ranges),
      s\<lparr>map_ops := map_ops s @ [Allocate]\<rparr>)"

text \<open>
  Modelled from the spec: \<^verbatim>\<open>add_ranges_shifted\<close> is not in the source at hand.
  Section 4.2: every range of the addition keeps its length and source and has the offset
  added to its start; the shifted ranges follow the base ranges, in order, and nothing is
  coalesced.
\<close>

definition shift_taint_range :: "taint_range \<Rightarrow> int \<Rightarrow> taint_range" where
  "shift_taint_range r offset = r\<lparr>start := start r + offset\<rparr>"

definition add_ranges_shifted :: "taint_record \<Rightarrow> taint_record \<Rightarrow> int \<Rightarrow> taint_record" where
  "add_ranges_shifted base_ranges addition_ranges offset =
     base_ranges @ map (\<lambda>r. shift_taint_range r offset) addition_ranges"

text \<open>
  Modelled from the spec: \<^verbatim>\<open>set_tainted_object\<close> is not in the source at hand.
  Section 6: \<open>map.store(identity, Taint Record)\<close> inserts or replaces the entry.
\<close>

definition set_tainted_object ::
  "obj_id \<Rightarrow> taint_record \<Rightarrow> taint_map \<Rightarrow> state \<Rightarrow> state" where
  "set_tainted_object obj tainted_object tx_map s =
     s\<lparr>tainting_map := Some (AList.update obj tainted_object tx_map),
       map_ops := map_ops s @ [Store obj]\<rparr>"

subsection \<open>The aspect\<close>

text \<open>
  \<^verbatim>\<open>api_extend_aspect(self, args, nargs)\<close>. The operand array is a nullable pointer:
  \<open>None\<close> is the null pointer, \<open>Some argv\<close> an array read at index 0 and 1; a pointer
  is dereferenced with \<^const>\<open>the\<close> only behind the test that it is not null. The map
  that \<^verbatim>\<open>ctx_map\<close> points to is not written between its test for emptiness and the
  final store, so its value at the test is passed to the helpers. The length of the
  destination is read before the append and handed on as the offset; the cast to
  \<^verbatim>\<open>long\<close> keeps the value of a length wherever \<^verbatim>\<open>long\<close> is as wide as
  \<^verbatim>\<open>Py_ssize_t\<close>, and is modelled as the identity.
\<close>

definition api_extend_aspect ::
  "obj_id \<Rightarrow> (nat \<Rightarrow> obj_id) option \<Rightarrow> int \<Rightarrow> state \<Rightarrow> outcome \<times> state" where
  "api_extend_aspect self args nargs s =
     (if nargs \<noteq> 2 \<or> args = None then (Return_nullptr, s)
      else
        let candidate_text = the args 0;
            len_candidate_text = PyByteArray_Size (objects s candidate_text);
            to_add = the args 1;
            s1 = PyObject_CallMethodOneArg_extend candidate_text to_add s;
            ctx_map = get_tainting_map s1
        in if ctx_map = None \<or> the ctx_map = [] then (Py_RETURN_NONE, s1)
           else
             let (to_candidate, s2) = get_tainted_object candidate_text (the ctx_map) s1;
                 (to_result, s3) = allocate_tainted_object to_candidate s2;
                 (to_toadd, s4) = get_tainted_object to_add (the ctx_map) s3;
                 to_result' =
                   (if to_toadd \<noteq> None
                    then add_ranges_shifted to_result (the to_toadd) len_candidate_text
                    else to_result)
             in (Py_RETURN_NONE,
                 set_tainted_object candidate_text to_result' (the ctx_map) s4))"

subsection \<open>Observations used to state the properties\<close>

text \<open>The entry of an object in the tainting map; there is none when no map is active.\<close>

definition taint_entry :: "state \<Rightarrow> obj_id \<Rightarrow> taint_record option" where
  "taint_entry s obj = (case tainting_map s of None \<Rightarrow> None | Some m \<Rightarrow> map_of m obj)"

text \<open>The ranges of an optional record: an absent record has none.\<close>

fun ranges_of :: "taint_record option \<Rightarrow> taint_record" where
  "ranges_of None = []"
| "ranges_of (Some ranges) = ranges"

text \<open>
  The invariant of a taint range against the length \<open>n\<close> of its buffer, and of a record:
  every range starts at a non-negative offset, has a positive length and ends within the
  buffer.
\<close>

definition range_ok :: "int \<Rightarrow> taint_range \<Rightarrow> bool" where
  "range_ok n r = (0 \<le> start r \<and> 0 < length_tr r \<and> start r + length_tr r \<le> n)"

definition record_ok :: "int \<Rightarrow> taint_record \<Rightarrow> bool" where
  "record_ok n ranges = list_all (range_ok n) ranges"

text \<open>Two ranges overlap when they share an offset; a record is overlap-free when no
  two of its ranges do.\<close>

definition overlaps :: "taint_range \<Rightarrow> taint_range \<Rightarrow> bool" where
  "overlaps r q = (start r < start q + length_tr q \<and> start q < start r + length_tr r)"

fun overlap_free :: "taint_record \<Rightarrow> bool" where
  "overlap_free [] = True"
| "overlap_free (r # ranges) = (list_all (\<lambda>q. \<not> overlaps r q) ranges \<and> overlap_free ranges)"

text \<open>The offset \<open>i\<close> lies in one of the ranges of the record.\<close>

definition covers :: "taint_record \<Rightarrow> int \<Rightarrow> bool" where
  "covers ranges i = list_ex (\<lambda>r. start r \<le> i \<and> i < start r + length_tr r) ranges"

subsection \<open>Concrete calls\<close>

text \<open>
  The operand array of a call \<^verbatim>\<open>extend(destination, addition)\<close>, a heap that holds the
  listed objects (any other identity holds an object that cannot be appended), and a state
  with such a heap, no pending exception and an empty log.
\<close>

definition operands :: "obj_id \<Rightarrow> obj_id \<Rightarrow> (nat \<Rightarrow> obj_id) option" where
  "operands destination addition = Some (\<lambda>i. if i = 0 then destination else addition)"

definition heap_of :: "(obj_id \<times> pyobj) list \<Rightarrow> obj_id \<Rightarrow> pyobj" where
  "heap_of objs k = (case map_of objs k of None \<Rightarrow> Incompatible 0 | Some obj \<Rightarrow> obj)"

definition state_of :: "(obj_id \<times> pyobj) list \<Rightarrow> taint_map option \<Rightarrow> state" where
  "state_of objs m = \<lparr>objects = heap_of objs, exception = None, tainting_map = m, map_ops = []\<rparr>"

section \<open>The two paths of a call with two operands\<close>

text \<open>
  The native call leaves the tainting map and the log alone. On a byte array it appends
  the bytes of an argument that can be appended and otherwise only sets the exception.
\<close>

lemma extend_call_tainting_map [simp]:
  "tainting_map (PyObject_CallMethodOneArg_extend c t s) = tainting_map s"
  by (simp add: PyObject_CallMethodOneArg_extend_def split: option.splits pyobj.splits)

lemma extend_call_map_ops [simp]:
  "map_ops (PyObject_CallMethodOneArg_extend c t s) = map_ops s"
  by (simp add: PyObject_CallMethodOneArg_extend_def split: option.splits pyobj.splits)

lemma extend_call_appends:
  "objects s c = ByteArray a \<Longrightarrow> as_bytes (objects s t) = Some b \<Longrightarrow>
   PyObject_CallMethodOneArg_extend c t s = s\<lparr>objects := (objects s)(c := ByteArray (a @ b))\<rparr>"
  by (simp add: PyObject_CallMethodOneArg_extend_def)

lemma extend_call_incompatible:
  "objects s c = ByteArray a \<Longrightarrow> as_bytes (objects s t) = None \<Longrightarrow>
   PyObject_CallMethodOneArg_extend c t s = s\<lparr>exception := Some TypeError\<rparr>"
  by (simp add: PyObject_CallMethodOneArg_extend_def)

text \<open>Without a map, or with a map that has no entry, the call ends after the append.\<close>

lemma api_extend_aspect_untracked:
  assumes "nargs = 2" "args = Some argv"
    and "tainting_map s = None \<or> tainting_map s = Some []"
  shows "api_extend_aspect self args nargs s =
           (Py_RETURN_NONE, PyObject_CallMethodOneArg_extend (argv 0) (argv 1) s)"
  using assms
  by (auto simp: api_extend_aspect_def get_tainting_map_def Let_def)

text \<open>
  With a map that has an entry, the call looks up both operands, builds the record of the
  result and stores it under the destination, whatever kind of object the destination is.
\<close>

lemma api_extend_aspect_tracked_any:
  assumes "nargs = 2" "args = Some argv"
    and "tainting_map s = Some m" "m \<noteq> []"
  shows "api_extend_aspect self args nargs s =
           (Py_RETURN_NONE,
            (PyObject_CallMethodOneArg_extend (argv 0) (argv 1) s)
              \<lparr>tainting_map :=
                 Some (AList.update (argv 0)
                   (ranges_of (map_of m (argv 0)) @
                    map (\<lambda>r. shift_taint_range r (PyByteArray_Size (objects s (argv 0))))
                      (ranges_of (map_of m (argv 1))))
                   m),
               map_ops :=
                 map_ops s @ [Lookup (argv 0), Allocate, Lookup (argv 1), Store (argv 0)]\<rparr>)"
proof (cases "map_of m (argv 1)")
  case None
  with assms show ?thesis
    by (simp add: api_extend_aspect_def get_tainting_map_def get_tainted_object_def
        allocate_tainted_object_def set_tainted_object_def Let_def
        split: option.splits)
next
  case (Some r)
  with assms show ?thesis
    by (simp add: api_extend_aspect_def get_tainting_map_def get_tainted_object_def
        allocate_tainted_object_def add_ranges_shifted_def set_tainted_object_def Let_def
        split: option.splits)
qed

lemma api_extend_aspect_tracked:
  assumes "nargs = 2" "args = Some argv" "objects s (argv 0) = ByteArray a"
    and "tainting_map s = Some m" "m \<noteq> []"
  shows "api_extend_aspect self args nargs s =
           (Py_RETURN_NONE,
            (PyObject_CallMethodOneArg_extend (argv 0) (argv 1) s)
              \<lparr>tainting_map :=
                 Some (AList.update (argv 0)
                   (ranges_of (map_of m (argv 0)) @
                    map (\<lambda>r. shift_taint_range r (int (length a)))
                      (ranges_of (map_of m (argv 1))))
                   m),
               map_ops :=
                 map_ops s @ [Lookup (argv 0), Allocate, Lookup (argv 1), Store (argv 0)]\<rparr>)"
  using api_extend_aspect_tracked_any [OF assms(1,2,4,5), of self] assms(3) by simp

lemma taint_entry_Some_tracked:
  "taint_entry s k = Some r \<Longrightarrow>
   \<exists>m. tainting_map s = Some m \<and> m \<noteq> [] \<and> map_of m k = Some r"
  by (auto simp: taint_entry_def split: option.splits)

lemma stored_entry:
  assumes "nargs = 2" "args = Some argv" "objects s (argv 0) = ByteArray a"
    and "tainting_map s = Some m" "m \<noteq> []"
  shows "taint_entry (snd (api_extend_aspect self args nargs s)) (argv 0) =
           Some (ranges_of (map_of m (argv 0)) @
                 map (\<lambda>r. shift_taint_range r (int (length a)))
                   (ranges_of (map_of m (argv 1))))"
  by (simp add: api_extend_aspect_tracked [OF assms] taint_entry_def update_conv')

lemma content_after:
  assumes "nargs = 2" "args = Some argv" "objects s (argv 0) = ByteArray a"
    and "as_bytes (objects s (argv 1)) = Some b"
  shows "fst (api_extend_aspect self args nargs s) = Py_RETURN_NONE \<and>
         objects (snd (api_extend_aspect self args nargs s)) =
           (objects s)(argv 0 := ByteArray (a @ b))"
proof (cases "tainting_map s = None \<or> tainting_map s = Some []")
  case True
  show ?thesis
    using api_extend_aspect_untracked [OF assms(1,2) True, of self]
      extend_call_appends [OF assms(3,4)]
    by simp
next
  case False
  then obtain m where m: "tainting_map s = Some m" "m \<noteq> []" by auto
  show ?thesis
    using api_extend_aspect_tracked [OF assms(1-3) m, of self]
      extend_call_appends [OF assms(3,4)]
    by simp
qed

section \<open>Properties of the call\<close>

subsection \<open>Malformed calls\<close>

text \<open>
  C5. A call with a number of operands other than two, or with a null operand list,
  returns the null pointer at once and leaves the whole state as it was: no object is
  mutated and no operation on the tainting map is performed.
\<close>

theorem malformed_call_no_effect:
  "nargs \<noteq> 2 \<or> args = None \<Longrightarrow> api_extend_aspect self args nargs s = (Return_nullptr, s)"
  by (simp add: api_extend_aspect_def)

text \<open>A call with three operands, and a call with a null operand list.\<close>

theorem malformed_call_no_effect_witness:
  "api_extend_aspect 0 (operands 10 20) 3
     (state_of [(10, ByteArray ''ab''), (20, ByteArray ''xyz'')] (Some [(20, [])])) =
   (Return_nullptr, state_of [(10, ByteArray ''ab''), (20, ByteArray ''xyz'')] (Some [(20, [])])) \<and>
   api_extend_aspect 0 None 2
     (state_of [(10, ByteArray ''ab''), (20, ByteArray ''xyz'')] (Some [(20, [])])) =
   (Return_nullptr, state_of [(10, ByteArray ''ab''), (20, ByteArray ''xyz'')] (Some [(20, [])]))"
  using malformed_call_no_effect [of 3 "operands 10 20" 0
      "state_of [(10, ByteArray ''ab''), (20, ByteArray ''xyz'')] (Some [(20, [])])"]
    malformed_call_no_effect [of 2 None 0
      "state_of [(10, ByteArray ''ab''), (20, ByteArray ''xyz'')] (Some [(20, [])])"]
  by simp

subsection \<open>No map, or a map without entries\<close>

text \<open>
  C6. When no tainting map is active, or the active map has no entry, a call that appends
  an addition with bytes \<open>b\<close> to a byte array with bytes \<open>a\<close> returns \<^verbatim>\<open>None\<close> and
  changes nothing but the content of the destination, which becomes \<open>a\<close> followed by \<open>b\<close>:
  no exception is raised or left pending by the call, no lookup, allocation or store is
  performed, and the map is as it was.
\<close>

theorem no_entries_no_map_work:
  assumes "nargs = 2" and "args = Some argv"
    and "objects s (argv 0) = ByteArray a"
    and "as_bytes (objects s (argv 1)) = Some b"
    and "tainting_map s = None \<or> tainting_map s = Some []"
  shows "api_extend_aspect self args nargs s =
           (Py_RETURN_NONE, s\<lparr>objects := (objects s)(argv 0 := ByteArray (a @ b))\<rparr>) \<and>
         exception (snd (api_extend_aspect self args nargs s)) = exception s \<and>
         map_ops (snd (api_extend_aspect self args nargs s)) = map_ops s \<and>
         tainting_map (snd (api_extend_aspect self args nargs s)) = tainting_map s"
proof -
  have "api_extend_aspect self args nargs s =
          (Py_RETURN_NONE, PyObject_CallMethodOneArg_extend (argv 0) (argv 1) s)"
    by (rule api_extend_aspect_untracked [OF assms(1,2,5)])
  then show ?thesis
    using extend_call_appends [OF assms(3,4)] by simp
qed

text \<open>
  \<open>bytearray(b"ab").extend(b"xyz")\<close> with no pending exception, once without a map and
  once with a map that has no entry.
\<close>

theorem no_entries_no_map_work_witness:
  "api_extend_aspect 0 (operands 10 20) 2
      (state_of [(10, ByteArray ''ab''), (20, Bytes ''xyz'')] None) =
     (Py_RETURN_NONE,
      \<lparr>objects = (heap_of [(10, ByteArray ''ab''), (20, Bytes ''xyz'')])
                   (10 := ByteArray ''abxyz''),
       exception = None, tainting_map = None, map_ops = []\<rparr>) \<and>
   api_extend_aspect 0 (operands 10 20) 2
      (state_of [(10, ByteArray ''ab''), (20, Bytes ''xyz'')] (Some [])) =
     (Py_RETURN_NONE,
      \<lparr>objects = (heap_of [(10, ByteArray ''ab''), (20, Bytes ''xyz'')])
                   (10 := ByteArray ''abxyz''),
       exception = None, tainting_map = Some [], map_ops = []\<rparr>)"
proof -
  have heap: "heap_of [(10, ByteArray ''ab''), (20, Bytes ''xyz'')] 10 = ByteArray ''ab''"
    "as_bytes (heap_of [(10, ByteArray ''ab''), (20, Bytes ''xyz'')] 20) = Some ''xyz''"
    by (simp_all add: heap_of_def)
  show ?thesis
    using no_entries_no_map_work [of 2 "operands 10 20" "\<lambda>i. if i = 0 then 10 else 20"
        "state_of [(10, ByteArray ''ab''), (20, Bytes ''xyz'')] None" "''ab''" "''xyz''" 0]
      no_entries_no_map_work [of 2 "operands 10 20" "\<lambda>i. if i = 0 then 10 else 20"
        "state_of [(10, ByteArray ''ab''), (20, Bytes ''xyz'')] (Some [])" "''ab''" "''xyz''" 0]
      heap
    by (simp add: operands_def state_of_def)
qed

subsection \<open>An addition that cannot be appended\<close>

text \<open>
  C4. For an addition that the native append rejects, the content of the destination
  stays as it was. The call does not stop there, though: the value of the native call is
  discarded, so the call returns \<^verbatim>\<open>None\<close> with the \<^verbatim>\<open>TypeError\<close> pending, and with
  a map that has an entry it goes on to look up both operands and to store a record for
  the destination.
\<close>

theorem incompatible_addition_not_rejected:
  assumes "nargs = 2" and "args = Some argv"
    and "objects s (argv 0) = ByteArray a"
    and "as_bytes (objects s (argv 1)) = None"
  shows "fst (api_extend_aspect self args nargs s) = Py_RETURN_NONE \<and>
         objects (snd (api_extend_aspect self args nargs s)) = objects s \<and>
         exception (snd (api_extend_aspect self args nargs s)) = Some TypeError \<and>
         (\<forall>m. tainting_map s = Some m \<and> m \<noteq> [] \<longrightarrow>
            map_ops (snd (api_extend_aspect self args nargs s)) =
              map_ops s @ [Lookup (argv 0), Allocate, Lookup (argv 1), Store (argv 0)])"
proof (cases "tainting_map s = None \<or> tainting_map s = Some []")
  case True
  show ?thesis
    using api_extend_aspect_untracked [OF assms(1,2) True, of self]
      extend_call_incompatible [OF assms(3,4)] True
    by auto
next
  case False
  then obtain m where m: "tainting_map s = Some m" "m \<noteq> []" by auto
  show ?thesis
    using api_extend_aspect_tracked [OF assms(1-3) m, of self]
      extend_call_incompatible [OF assms(3,4)] m
    by simp
qed

text \<open>
  A two-byte byte array extended by an object that cannot be appended and has an entry
  in the map.
\<close>

theorem incompatible_addition_not_rejected_witness:
  "fst (api_extend_aspect 0 (operands 10 20) 2
      (state_of [(10, ByteArray ''ab'')]
         (Some [(20, [\<lparr>start = 0, length_tr = 3, source = 7\<rparr>])]))) = Py_RETURN_NONE \<and>
   objects (snd (api_extend_aspect 0 (operands 10 20) 2
      (state_of [(10, ByteArray ''ab'')]
         (Some [(20, [\<lparr>start = 0, length_tr = 3, source = 7\<rparr>])])))) 10 = ByteArray ''ab'' \<and>
   exception (snd (api_extend_aspect 0 (operands 10 20) 2
      (state_of [(10, ByteArray ''ab'')]
         (Some [(20, [\<lparr>start = 0, length_tr = 3, source = 7\<rparr>])])))) = Some TypeError \<and>
   map_ops (snd (api_extend_aspect 0 (operands 10 20) 2
      (state_of [(10, ByteArray ''ab'')]
         (Some [(20, [\<lparr>start = 0, length_tr = 3, source = 7\<rparr>])])))) =
     [Lookup 10, Allocate, Lookup 20, Store 10]"
  using incompatible_addition_not_rejected [of 2 "operands 10 20" "\<lambda>i. if i = 0 then 10 else 20"
      "state_of [(10, ByteArray ''ab'')]
         (Some [(20, [\<lparr>start = 0, length_tr = 3, source = 7\<rparr>])])" "''ab''" 0]
  by (simp add: operands_def state_of_def heap_of_def)

subsection \<open>Entries of other objects\<close>

text \<open>
  C10. Whatever the call and whatever kind of object the destination is, the entry of
  every identity other than the destination's is the same after the call as before it,
  and the call performs no store under such an identity. This includes the entry of the
  addition whenever the addition is not the destination object itself.
\<close>

theorem other_entries_untouched:
  assumes "\<forall>argv. args = Some argv \<longrightarrow> k \<noteq> argv 0"
  shows "taint_entry (snd (api_extend_aspect self args nargs s)) k = taint_entry s k \<and>
         (Store k \<in> set (map_ops (snd (api_extend_aspect self args nargs s))) \<longrightarrow>
          Store k \<in> set (map_ops s))"
proof (cases "nargs \<noteq> 2 \<or> args = None")
  case True
  then show ?thesis by (simp add: api_extend_aspect_def)
next
  case False
  then obtain argv where a: "nargs = 2" "args = Some argv" by auto
  with assms have k: "k \<noteq> argv 0" by simp
  show ?thesis
  proof (cases "tainting_map s = None \<or> tainting_map s = Some []")
    case True
    show ?thesis
      using api_extend_aspect_untracked [OF a True, of self]
      by (simp add: taint_entry_def)
  next
    case False
    then obtain m where m: "tainting_map s = Some m" "m \<noteq> []" by auto
    show ?thesis
      using api_extend_aspect_tracked_any [OF a m, of self] k m(1)
      by (simp add: taint_entry_def update_conv')
  qed
qed

text \<open>
  The entry of the addition in a call where both operands have entries, once with a byte
  array and once with an immutable byte string as the destination.
\<close>

theorem other_entries_untouched_witness:
  "taint_entry (snd (api_extend_aspect 0 (operands 10 20) 2
      (state_of [(10, ByteArray ''ab''), (20, ByteArray ''xyz'')]
         (Some [(10, [\<lparr>start = 0, length_tr = 2, source = 7\<rparr>]),
                (20, [\<lparr>start = 1, length_tr = 1, source = 8\<rparr>])])))) 20 =
     Some [\<lparr>start = 1, length_tr = 1, source = 8\<rparr>] \<and>
   Store 20 \<notin> set (map_ops (snd (api_extend_aspect 0 (operands 10 20) 2
      (state_of [(10, ByteArray ''ab''), (20, ByteArray ''xyz'')]
         (Some [(10, [\<lparr>start = 0, length_tr = 2, source = 7\<rparr>]),
                (20, [\<lparr>start = 1, length_tr = 1, source = 8\<rparr>])]))))) \<and>
   taint_entry (snd (api_extend_aspect 0 (operands 10 20) 2
      (state_of [(10, Bytes ''ab''), (20, ByteArray ''xyz'')]
         (Some [(10, [\<lparr>start = 0, length_tr = 2, source = 7\<rparr>]),
                (20, [\<lparr>start = 1, length_tr = 1, source = 8\<rparr>])])))) 20 =
     Some [\<lparr>start = 1, length_tr = 1, source = 8\<rparr>] \<and>
   Store 20 \<notin> set (map_ops (snd (api_extend_aspect 0 (operands 10 20) 2
      (state_of [(10, Bytes ''ab''), (20, ByteArray ''xyz'')]
         (Some [(10, [\<lparr>start = 0, length_tr = 2, source = 7\<rparr>]),
                (20, [\<lparr>start = 1, length_tr = 1, source = 8\<rparr>])])))))"
  using other_entries_untouched [of "operands 10 20" 20 0 2
      "state_of [(10, ByteArray ''ab''), (20, ByteArray ''xyz'')]
         (Some [(10, [\<lparr>start = 0, length_tr = 2, source = 7\<rparr>]),
                (20, [\<lparr>start = 1, length_tr = 1, source = 8\<rparr>])])"]
    other_entries_untouched [of "operands 10 20" 20 0 2
      "state_of [(10, Bytes ''ab''), (20, ByteArray ''xyz'')]
         (Some [(10, [\<lparr>start = 0, length_tr = 2, source = 7\<rparr>]),
                (20, [\<lparr>start = 1, length_tr = 1, source = 8\<rparr>])])"]
  by (auto simp: operands_def state_of_def taint_entry_def)

text \<open>
  When the addition is the destination itself, its entry is the one the call replaces:
  \<open>A.extend(A)\<close> for \<open>A = bytearray(b"ab")\<close> with the range \<open>{0, 2, src}\<close> leaves \<open>A\<close> with
  the content \<open>b"abab"\<close> and the record \<open>[{0, 2, src}, {2, 2, src}]\<close>.
\<close>

theorem other_entries_untouched_counterexample:
  "taint_entry (state_of [(10, ByteArray ''ab'')]
      (Some [(10, [\<lparr>start = 0, length_tr = 2, source = 7\<rparr>])])) 10 =
     Some [\<lparr>start = 0, length_tr = 2, source = 7\<rparr>] \<and>
   fst (api_extend_aspect 0 (operands 10 10) 2
      (state_of [(10, ByteArray ''ab'')]
         (Some [(10, [\<lparr>start = 0, length_tr = 2, source = 7\<rparr>])]))) = Py_RETURN_NONE \<and>
   objects (snd (api_extend_aspect 0 (operands 10 10) 2
      (state_of [(10, ByteArray ''ab'')]
         (Some [(10, [\<lparr>start = 0, length_tr = 2, source = 7\<rparr>])])))) 10 = ByteArray ''abab'' \<and>
   taint_entry (snd (api_extend_aspect 0 (operands 10 10) 2
      (state_of [(10, ByteArray ''ab'')]
         (Some [(10, [\<lparr>start = 0, length_tr = 2, source = 7\<rparr>])])))) 10 =
     Some [\<lparr>start = 0, length_tr = 2, source = 7\<rparr>, \<lparr>start = 2, length_tr = 2, source = 7\<rparr>]"
  by (simp add: api_extend_aspect_def operands_def state_of_def heap_of_def taint_entry_def
      PyObject_CallMethodOneArg_extend_def get_tainting_map_def get_tainted_object_def
      allocate_tainted_object_def set_tainted_object_def add_ranges_shifted_def
      shift_taint_range_def)

subsection \<open>Neither operand has an entry\<close>

text \<open>
  C1. For a byte array \<open>A\<close> and an addition \<open>B\<close> that can be appended, neither with an
  entry in the tainting map, the call returns \<^verbatim>\<open>None\<close> and \<open>A\<close> holds its former bytes
  followed by those of \<open>B\<close>. \<open>A\<close> has no entry afterwards when no map is active or the active
  map has no entry at all; when the map has an entry for some other object, the call stores
  a record without ranges under \<open>A\<close>.
\<close>

theorem untainted_operands_entry:
  assumes "nargs = 2" and "args = Some argv"
    and "objects s (argv 0) = ByteArray a"
    and "as_bytes (objects s (argv 1)) = Some b"
    and "taint_entry s (argv 0) = None" and "taint_entry s (argv 1) = None"
  shows "fst (api_extend_aspect self args nargs s) = Py_RETURN_NONE \<and>
         objects (snd (api_extend_aspect self args nargs s)) (argv 0) = ByteArray (a @ b) \<and>
         taint_entry (snd (api_extend_aspect self args nargs s)) (argv 0) =
           (if tainting_map s = None \<or> tainting_map s = Some [] then None else Some [])"
proof (cases "tainting_map s = None \<or> tainting_map s = Some []")
  case True
  have "taint_entry (PyObject_CallMethodOneArg_extend (argv 0) (argv 1) s) (argv 0) = None"
    using True by (auto simp: taint_entry_def)
  then show ?thesis
    using True content_after [OF assms(1-4), of self]
      api_extend_aspect_untracked [OF assms(1,2) True, of self]
    by simp
next
  case False
  then obtain m where m: "tainting_map s = Some m" "m \<noteq> []" by auto
  have "map_of m (argv 0) = None" "map_of m (argv 1) = None"
    using assms(5,6) m by (simp_all add: taint_entry_def)
  then show ?thesis
    using False content_after [OF assms(1-4), of self] stored_entry [OF assms(1-3) m, of self]
    by simp
qed

text \<open>
  \<open>bytearray(b"ab").extend(bytearray(b"xyz"))\<close>, once with a map without entries and once
  with a map whose only entry belongs to a third object.
\<close>

theorem untainted_operands_entry_witness:
  "objects (snd (api_extend_aspect 0 (operands 10 20) 2
      (state_of [(10, ByteArray ''ab''), (20, ByteArray ''xyz'')] (Some [])))) 10 =
     ByteArray ''abxyz'' \<and>
   taint_entry (snd (api_extend_aspect 0 (operands 10 20) 2
      (state_of [(10, ByteArray ''ab''), (20, ByteArray ''xyz'')] (Some [])))) 10 = None \<and>
   objects (snd (api_extend_aspect 0 (operands 10 20) 2
      (state_of [(10, ByteArray ''ab''), (20, ByteArray ''xyz'')]
         (Some [(30, [\<lparr>start = 0, length_tr = 1, source = 7\<rparr>])])))) 10 =
     ByteArray ''abxyz'' \<and>
   taint_entry (snd (api_extend_aspect 0 (operands 10 20) 2
      (state_of [(10, ByteArray ''ab''), (20, ByteArray ''xyz'')]
         (Some [(30, [\<lparr>start = 0, length_tr = 1, source = 7\<rparr>])])))) 10 = Some []"
  using untainted_operands_entry [of 2 "operands 10 20" "\<lambda>i. if i = 0 then 10 else 20"
      "state_of [(10, ByteArray ''ab''), (20, ByteArray ''xyz'')] (Some [])" "''ab''" "''xyz''" 0]
    untainted_operands_entry [of 2 "operands 10 20" "\<lambda>i. if i = 0 then 10 else 20"
      "state_of [(10, ByteArray ''ab''), (20, ByteArray ''xyz'')]
         (Some [(30, [\<lparr>start = 0, length_tr = 1, source = 7\<rparr>])])" "''ab''" "''xyz''" 0]
  by (simp add: operands_def state_of_def heap_of_def taint_entry_def)

text \<open>
  The destination does get an entry although neither operand has one: the map holds an
  entry for a third object, so the call does not return early, and the store under the
  destination is not guarded.
\<close>

theorem untainted_operands_entry_counterexample:
  "taint_entry (state_of [(10, ByteArray ''ab''), (20, ByteArray ''xyz'')]
      (Some [(30, [\<lparr>start = 0, length_tr = 1, source = 7\<rparr>])])) 10 = None \<and>
   taint_entry (state_of [(10, ByteArray ''ab''), (20, ByteArray ''xyz'')]
      (Some [(30, [\<lparr>start = 0, length_tr = 1, source = 7\<rparr>])])) 20 = None \<and>
   fst (api_extend_aspect 0 (operands 10 20) 2
      (state_of [(10, ByteArray ''ab''), (20, ByteArray ''xyz'')]
         (Some [(30, [\<lparr>start = 0, length_tr = 1, source = 7\<rparr>])]))) = Py_RETURN_NONE \<and>
   taint_entry (snd (api_extend_aspect 0 (operands 10 20) 2
      (state_of [(10, ByteArray ''ab''), (20, ByteArray ''xyz'')]
         (Some [(30, [\<lparr>start = 0, length_tr = 1, source = 7\<rparr>])])))) 10 \<noteq> None"
  by (simp add: api_extend_aspect_def operands_def state_of_def heap_of_def taint_entry_def
      PyObject_CallMethodOneArg_extend_def get_tainting_map_def get_tainted_object_def
      allocate_tainted_object_def set_tainted_object_def)

subsection \<open>Both operands have entries\<close>

text \<open>
  C2. When the destination \<open>A\<close> has the record \<open>R_A\<close> and the addition \<open>B\<close> the record
  \<open>R_B\<close>, the destination holds the bytes of both afterwards and its record is \<open>R_A\<close>
  followed by the ranges of \<open>R_B\<close>, each with its start moved forward by the length \<open>A\<close>
  had before the append and with its length and source as they were: all ranges of \<open>R_A\<close>
  come first, the order within each record is kept, and no two ranges are merged.
\<close>

theorem both_tainted_merge:
  assumes "nargs = 2" and "args = Some argv"
    and "objects s (argv 0) = ByteArray a"
    and "as_bytes (objects s (argv 1)) = Some b"
    and "taint_entry s (argv 0) = Some R_A" and "taint_entry s (argv 1) = Some R_B"
  shows "objects (snd (api_extend_aspect self args nargs s)) (argv 0) = ByteArray (a @ b) \<and>
         taint_entry (snd (api_extend_aspect self args nargs s)) (argv 0) =
           Some (R_A @
                 map (\<lambda>r. \<lparr>start = start r + int (length a), length_tr = length_tr r,
                            source = source r\<rparr>) R_B)"
proof -
  obtain m where m: "tainting_map s = Some m" "m \<noteq> []" "map_of m (argv 0) = Some R_A"
    using taint_entry_Some_tracked [OF assms(5)] by blast
  have "map_of m (argv 1) = Some R_B"
    using assms(6) m(1) by (simp add: taint_entry_def)
  then show ?thesis
    using content_after [OF assms(1-4), of self] stored_entry [OF assms(1-3) m(1,2), of self] m(3)
    by (simp add: shift_taint_range_def)
qed

text \<open>
  \<open>A = bytearray(b"ab")\<close> with the range \<open>{0, 2, src1}\<close> and \<open>B = bytearray(b"xyz")\<close> with
  the range \<open>{1, 1, src2}\<close>: the content becomes \<open>b"abxyz"\<close> and the record
  \<open>[{0, 2, src1}, {3, 1, src2}]\<close>.
\<close>

theorem both_tainted_merge_witness:
  "objects (snd (api_extend_aspect 0 (operands 10 20) 2
      (state_of [(10, ByteArray ''ab''), (20, ByteArray ''xyz'')]
         (Some [(10, [\<lparr>start = 0, length_tr = 2, source = 7\<rparr>]),
                (20, [\<lparr>start = 1, length_tr = 1, source = 8\<rparr>])])))) 10 =
     ByteArray ''abxyz'' \<and>
   taint_entry (snd (api_extend_aspect 0 (operands 10 20) 2
      (state_of [(10, ByteArray ''ab''), (20, ByteArray ''xyz'')]
         (Some [(10, [\<lparr>start = 0, length_tr = 2, source = 7\<rparr>]),
                (20, [\<lparr>start = 1, length_tr = 1, source = 8\<rparr>])])))) 10 =
     Some [\<lparr>start = 0, length_tr = 2, source = 7\<rparr>, \<lparr>start = 3, length_tr = 1, source = 8\<rparr>]"
  using both_tainted_merge [of 2 "operands 10 20" "\<lambda>i. if i = 0 then 10 else 20"
      "state_of [(10, ByteArray ''ab''), (20, ByteArray ''xyz'')]
         (Some [(10, [\<lparr>start = 0, length_tr = 2, source = 7\<rparr>]),
                (20, [\<lparr>start = 1, length_tr = 1, source = 8\<rparr>])])"
      "''ab''" "''xyz''" "[\<lparr>start = 0, length_tr = 2, source = 7\<rparr>]"
      "[\<lparr>start = 1, length_tr = 1, source = 8\<rparr>]" 0]
  by (simp add: operands_def state_of_def heap_of_def taint_entry_def)

subsection \<open>Only the addition has an entry\<close>

text \<open>
  C3. When the destination \<open>A\<close> has no entry and the addition has the record \<open>R_B\<close>, the
  entry of \<open>A\<close> after the call consists of the ranges of \<open>R_B\<close>, each with its start
  increased by the length \<open>A\<close> had before the append and with its length and source
  unchanged.
\<close>

theorem untainted_destination_shift:
  assumes "nargs = 2" and "args = Some argv"
    and "objects s (argv 0) = ByteArray a"
    and "taint_entry s (argv 0) = None" and "taint_entry s (argv 1) = Some R_B"
  shows "taint_entry (snd (api_extend_aspect self args nargs s)) (argv 0) =
           Some (map (\<lambda>r. \<lparr>start = start r + int (length a), length_tr = length_tr r,
                            source = source r\<rparr>) R_B)"
proof -
  obtain m where m: "tainting_map s = Some m" "m \<noteq> []" "map_of m (argv 1) = Some R_B"
    using taint_entry_Some_tracked [OF assms(5)] by blast
  have "map_of m (argv 0) = None"
    using assms(4) m(1) by (simp add: taint_entry_def)
  then show ?thesis
    using stored_entry [OF assms(1-3) m(1,2), of self] m(3)
    by (simp add: shift_taint_range_def)
qed

text \<open>A destination of five bytes and the range \<open>{0, 3, s}\<close>: the entry is \<open>[{5, 3, s}]\<close>.\<close>

theorem untainted_destination_shift_witness:
  "taint_entry (snd (api_extend_aspect 0 (operands 10 20) 2
      (state_of [(10, ByteArray ''hello''), (20, ByteArray ''abc'')]
         (Some [(20, [\<lparr>start = 0, length_tr = 3, source = 7\<rparr>])])))) 10 =
     Some [\<lparr>start = 5, length_tr = 3, source = 7\<rparr>]"
  using untainted_destination_shift [of 2 "operands 10 20" "\<lambda>i. if i = 0 then 10 else 20"
      "state_of [(10, ByteArray ''hello''), (20, ByteArray ''abc'')]
         (Some [(20, [\<lparr>start = 0, length_tr = 3, source = 7\<rparr>])])"
      "''hello''" "[\<lparr>start = 0, length_tr = 3, source = 7\<rparr>]" 0]
  by (simp add: operands_def state_of_def heap_of_def taint_entry_def)

text \<open>
  C9. When the destination is empty before the call and the addition has the record
  \<open>R_B\<close>, the ranges of \<open>R_B\<close> appear in the entry of the destination as they are, with the
  same starts, lengths and sources, after the ranges the destination had.
\<close>

theorem empty_destination_unshifted:
  assumes "nargs = 2" and "args = Some argv"
    and "objects s (argv 0) = ByteArray []"
    and "taint_entry s (argv 1) = Some R_B"
  shows "taint_entry (snd (api_extend_aspect self args nargs s)) (argv 0) =
           Some (ranges_of (taint_entry s (argv 0)) @ R_B)"
proof -
  obtain m where m: "tainting_map s = Some m" "m \<noteq> []" "map_of m (argv 1) = Some R_B"
    using taint_entry_Some_tracked [OF assms(4)] by blast
  have "taint_entry s (argv 0) = map_of m (argv 0)"
    using m(1) by (simp add: taint_entry_def)
  then show ?thesis
    using stored_entry [OF assms(1-3) m(1,2), of self] m(3)
    by (simp add: shift_taint_range_def)
qed

text \<open>An empty byte array without an entry, extended by a byte array with one range.\<close>

theorem empty_destination_unshifted_witness:
  "taint_entry (snd (api_extend_aspect 0 (operands 10 20) 2
      (state_of [(10, ByteArray ''''), (20, ByteArray ''xyz'')]
         (Some [(20, [\<lparr>start = 1, length_tr = 2, source = 8\<rparr>])])))) 10 =
     Some [\<lparr>start = 1, length_tr = 2, source = 8\<rparr>]"
  using empty_destination_unshifted [of 2 "operands 10 20" "\<lambda>i. if i = 0 then 10 else 20"
      "state_of [(10, ByteArray ''''), (20, ByteArray ''xyz'')]
         (Some [(20, [\<lparr>start = 1, length_tr = 2, source = 8\<rparr>])])"
      "[\<lparr>start = 1, length_tr = 2, source = 8\<rparr>]" 0]
  by (simp add: operands_def state_of_def heap_of_def taint_entry_def)

subsection \<open>Only the destination has an entry\<close>

text \<open>
  C7. When the destination has the record \<open>R_A\<close> and the addition has no entry, the entry
  of the destination after the call is \<open>R_A\<close>: no range is added, removed or changed.
\<close>

theorem untainted_addition_keeps_ranges:
  assumes "nargs = 2" and "args = Some argv"
    and "objects s (argv 0) = ByteArray a"
    and "taint_entry s (argv 0) = Some R_A" and "taint_entry s (argv 1) = None"
  shows "taint_entry (snd (api_extend_aspect self args nargs s)) (argv 0) = Some R_A"
proof -
  obtain m where m: "tainting_map s = Some m" "m \<noteq> []" "map_of m (argv 0) = Some R_A"
    using taint_entry_Some_tracked [OF assms(4)] by blast
  have "map_of m (argv 1) = None"
    using assms(5) m(1) by (simp add: taint_entry_def)
  then show ?thesis
    using stored_entry [OF assms(1-3) m(1,2), of self] m(3)
    by simp
qed

text \<open>A byte array with one range, extended by a byte string without an entry.\<close>

theorem untainted_addition_keeps_ranges_witness:
  "taint_entry (snd (api_extend_aspect 0 (operands 10 20) 2
      (state_of [(10, ByteArray ''ab''), (20, Bytes ''xyz'')]
         (Some [(10, [\<lparr>start = 0, length_tr = 2, source = 7\<rparr>])])))) 10 =
     Some [\<lparr>start = 0, length_tr = 2, source = 7\<rparr>]"
  using untainted_addition_keeps_ranges [of 2 "operands 10 20" "\<lambda>i. if i = 0 then 10 else 20"
      "state_of [(10, ByteArray ''ab''), (20, Bytes ''xyz'')]
         (Some [(10, [\<lparr>start = 0, length_tr = 2, source = 7\<rparr>])])"
      "''ab''" "[\<lparr>start = 0, length_tr = 2, source = 7\<rparr>]" 0]
  by (simp add: operands_def state_of_def heap_of_def taint_entry_def)

subsection \<open>The invariant of the stored record\<close>

text \<open>
  Ranges that end within the destination lie below every shifted range of the addition,
  so the concatenation keeps the range invariant against the sum of the lengths, adds no
  overlap, and covers an offset exactly when the offset's origin was covered.
\<close>

lemma record_ok_iff: "record_ok n ranges \<longleftrightarrow> (\<forall>r \<in> set ranges. range_ok n r)"
  by (simp add: record_ok_def list_all_iff)

lemma covers_iff:
  "covers ranges i \<longleftrightarrow> (\<exists>r \<in> set ranges. start r \<le> i \<and> i < start r + length_tr r)"
  by (simp add: covers_def list_ex_iff)

lemma overlap_free_append:
  "overlap_free (xs @ ys) \<longleftrightarrow>
     overlap_free xs \<and> overlap_free ys \<and> (\<forall>x \<in> set xs. \<forall>y \<in> set ys. \<not> overlaps x y)"
  by (induction xs) (auto simp: list_all_iff)

lemma overlaps_shift [simp]:
  "overlaps (shift_taint_range r k) (shift_taint_range q k) = overlaps r q"
  by (simp add: overlaps_def shift_taint_range_def)

lemma overlap_free_shift:
  "overlap_free (map (\<lambda>r. shift_taint_range r k) ranges) = overlap_free ranges"
  by (induction ranges) (simp_all add: list_all_iff)

lemma range_ok_shift:
  "range_ok n r \<Longrightarrow> 0 \<le> k \<Longrightarrow> range_ok (k + n) (shift_taint_range r k)"
  by (simp add: range_ok_def shift_taint_range_def)

lemma range_ok_grow:
  "range_ok k r \<Longrightarrow> 0 \<le> n \<Longrightarrow> range_ok (k + n) r"
  by (simp add: range_ok_def)

lemma no_overlap_across:
  "range_ok k x \<Longrightarrow> range_ok n y \<Longrightarrow> \<not> overlaps x (shift_taint_range y k)"
  by (simp add: range_ok_def overlaps_def shift_taint_range_def)

lemma covers_append: "covers (xs @ ys) i \<longleftrightarrow> covers xs i \<or> covers ys i"
  by (auto simp: covers_iff)

lemma covered_by_shift:
  "start (shift_taint_range r k) \<le> i \<and>
     i < start (shift_taint_range r k) + length_tr (shift_taint_range r k) \<longleftrightarrow>
   start r \<le> i - k \<and> i - k < start r + length_tr r"
  unfolding shift_taint_range_def by simp linarith

lemma covers_shift:
  "covers (map (\<lambda>r. shift_taint_range r k) ranges) i = covers ranges (i - k)"
  by (simp add: covers_iff covered_by_shift)

lemma covers_within: "record_ok n ranges \<Longrightarrow> covers ranges i \<Longrightarrow> 0 \<le> i \<and> i < n"
  by (auto simp: record_ok_iff covers_iff range_ok_def)

lemma merged_record_ok:
  assumes "record_ok k xs" and "record_ok n ys" and "0 \<le> k" and "0 \<le> n"
  shows "record_ok (k + n) (xs @ map (\<lambda>r. shift_taint_range r k) ys)"
  using assms by (auto simp: record_ok_iff range_ok_shift range_ok_grow)

lemma merged_overlap_free:
  assumes "record_ok k xs" and "record_ok n ys" and "overlap_free xs" and "overlap_free ys"
  shows "overlap_free (xs @ map (\<lambda>r. shift_taint_range r k) ys)"
  using assms
  by (auto simp: overlap_free_append overlap_free_shift record_ok_iff no_overlap_across)

lemma merged_covers:
  assumes "record_ok k xs" and "record_ok n ys"
  shows "covers (xs @ map (\<lambda>r. shift_taint_range r k) ys) i \<longleftrightarrow>
           (if i < k then covers xs i else covers ys (i - k))"
  using covers_within [OF assms(1), of i] covers_within [OF assms(2), of "i - k"]
  by (auto simp: covers_append covers_shift)

text \<open>
  C8. Let the call append \<open>B\<close> to the byte array \<open>A\<close>, and let the records of both
  operands satisfy the range invariant against their buffers and be free of overlaps.
  Then a record stored for the destination satisfies the range invariant against the new
  length, so no range extends past \<open>length(A) + length(B)\<close>; no two of its ranges overlap;
  and it covers an offset of the new buffer exactly when the byte there came from a
  covered byte of \<open>A\<close> or of \<open>B\<close>.
\<close>

theorem stored_record_invariant:
  assumes "nargs = 2" and "args = Some argv"
    and "objects s (argv 0) = ByteArray a"
    and "as_bytes (objects s (argv 1)) = Some b"
    and "record_ok (int (length a)) (ranges_of (taint_entry s (argv 0)))"
    and "record_ok (int (length b)) (ranges_of (taint_entry s (argv 1)))"
    and "overlap_free (ranges_of (taint_entry s (argv 0)))"
    and "overlap_free (ranges_of (taint_entry s (argv 1)))"
    and "taint_entry (snd (api_extend_aspect self args nargs s)) (argv 0) = Some stored"
  shows "objects (snd (api_extend_aspect self args nargs s)) (argv 0) = ByteArray (a @ b) \<and>
         record_ok (int (length (a @ b))) stored \<and>
         overlap_free stored \<and>
         (\<forall>i. covers stored i \<longleftrightarrow>
               (if i < int (length a) then covers (ranges_of (taint_entry s (argv 0))) i
                else covers (ranges_of (taint_entry s (argv 1))) (i - int (length a))))"
proof -
  have tracked: "\<not> (tainting_map s = None \<or> tainting_map s = Some [])"
  proof
    assume u: "tainting_map s = None \<or> tainting_map s = Some []"
    have "taint_entry (snd (api_extend_aspect self args nargs s)) (argv 0) = None"
      using api_extend_aspect_untracked [OF assms(1,2) u, of self] u
      by (auto simp: taint_entry_def)
    with assms(9) show False by simp
  qed
  then obtain m where m: "tainting_map s = Some m" "m \<noteq> []" by auto
  let ?RA = "ranges_of (taint_entry s (argv 0))" and ?RB = "ranges_of (taint_entry s (argv 1))"
  have e: "taint_entry s (argv 0) = map_of m (argv 0)" "taint_entry s (argv 1) = map_of m (argv 1)"
    using m(1) by (simp_all add: taint_entry_def)
  have stored: "stored = ?RA @ map (\<lambda>r. shift_taint_range r (int (length a))) ?RB"
    using stored_entry [OF assms(1-3) m, of self] assms(9) e by simp
  have "record_ok (int (length a) + int (length b)) stored"
    unfolding stored by (rule merged_record_ok [OF assms(5,6)]) simp_all
  moreover have "overlap_free stored"
    unfolding stored by (rule merged_overlap_free [OF assms(5-8)])
  moreover have "covers stored i \<longleftrightarrow>
      (if i < int (length a) then covers ?RA i else covers ?RB (i - int (length a)))" for i
    unfolding stored by (rule merged_covers [OF assms(5,6)])
  ultimately show ?thesis
    using content_after [OF assms(1-4), of self] by simp
qed

text \<open>
  \<open>bytearray(b"ab")\<close> with the range \<open>{0, 2, src1}\<close> extended by \<open>bytearray(b"xyz")\<close> with
  the range \<open>{1, 1, src2}\<close>: offset 3 of \<open>b"abxyz"\<close> is covered, offset 2 is not.
\<close>

theorem stored_record_invariant_witness:
  "taint_entry (snd (api_extend_aspect 0 (operands 10 20) 2
      (state_of [(10, ByteArray ''ab''), (20, ByteArray ''xyz'')]
         (Some [(10, [\<lparr>start = 0, length_tr = 2, source = 7\<rparr>]),
                (20, [\<lparr>start = 1, length_tr = 1, source = 8\<rparr>])])))) 10 =
     Some [\<lparr>start = 0, length_tr = 2, source = 7\<rparr>, \<lparr>start = 3, length_tr = 1, source = 8\<rparr>] \<and>
   objects (snd (api_extend_aspect 0 (operands 10 20) 2
      (state_of [(10, ByteArray ''ab''), (20, ByteArray ''xyz'')]
         (Some [(10, [\<lparr>start = 0, length_tr = 2, source = 7\<rparr>]),
                (20, [\<lparr>start = 1, length_tr = 1, source = 8\<rparr>])])))) 10 =
     ByteArray ''abxyz'' \<and>
   record_ok 5
     [\<lparr>start = 0, length_tr = 2, source = 7\<rparr>, \<lparr>start = 3, length_tr = 1, source = 8\<rparr>] \<and>
   overlap_free
     [\<lparr>start = 0, length_tr = 2, source = 7\<rparr>, \<lparr>start = 3, length_tr = 1, source = 8\<rparr>] \<and>
   covers
     [\<lparr>start = 0, length_tr = 2, source = 7\<rparr>, \<lparr>start = 3, length_tr = 1, source = 8\<rparr>] 3 \<and>
   \<not> covers
     [\<lparr>start = 0, length_tr = 2, source = 7\<rparr>, \<lparr>start = 3, length_tr = 1, source = 8\<rparr>] 2"
proof -
  let ?s = "state_of [(10, ByteArray ''ab''), (20, ByteArray ''xyz'')]
         (Some [(10, [\<lparr>start = 0, length_tr = 2, source = 7\<rparr>]),
                (20, [\<lparr>start = 1, length_tr = 1, source = 8\<rparr>])])"
  let ?stored =
    "[\<lparr>start = 0, length_tr = 2, source = 7\<rparr>, \<lparr>start = 3, length_tr = 1, source = 8\<rparr>]"
  have stored: "taint_entry (snd (api_extend_aspect 0 (operands 10 20) 2 ?s)) 10 = Some ?stored"
    using stored_entry [of 2 "operands 10 20" "\<lambda>i. if i = 0 then 10 else 20" ?s "''ab''"
        "[(10, [\<lparr>start = 0, length_tr = 2, source = 7\<rparr>]),
          (20, [\<lparr>start = 1, length_tr = 1, source = 8\<rparr>])]" 0]
    by (simp add: operands_def state_of_def heap_of_def shift_taint_range_def)
  show ?thesis
    using stored_record_invariant [of 2 "operands 10 20" "\<lambda>i. if i = 0 then 10 else 20" ?s
        "''ab''" "''xyz''" 0 ?stored] stored
    by (simp add: operands_def state_of_def heap_of_def taint_entry_def record_ok_def
        range_ok_def overlaps_def covers_def)
qed

text \<open>
  The range invariant alone does not exclude overlaps within a record: the two ranges of
  the destination below satisfy it and overlap, and the stored record keeps both.
\<close>

theorem stored_record_invariant_counterexample:
  "record_ok 2 [\<lparr>start = 0, length_tr = 2, source = 7\<rparr>, \<lparr>start = 1, length_tr = 1, source = 8\<rparr>] \<and>
   record_ok 1 [\<lparr>start = 0, length_tr = 1, source = 9\<rparr>] \<and>
   fst (api_extend_aspect 0 (operands 10 20) 2
      (state_of [(10, ByteArray ''ab''), (20, ByteArray ''x'')]
         (Some [(10, [\<lparr>start = 0, length_tr = 2, source = 7\<rparr>,
                      \<lparr>start = 1, length_tr = 1, source = 8\<rparr>]),
                (20, [\<lparr>start = 0, length_tr = 1, source = 9\<rparr>])]))) = Py_RETURN_NONE \<and>
   taint_entry (snd (api_extend_aspect 0 (operands 10 20) 2
      (state_of [(10, ByteArray ''ab''), (20, ByteArray ''x'')]
         (Some [(10, [\<lparr>start = 0, length_tr = 2, source = 7\<rparr>,
                      \<lparr>start = 1, length_tr = 1, source = 8\<rparr>]),
                (20, [\<lparr>start = 0, length_tr = 1, source = 9\<rparr>])])))) 10 =
     Some [\<lparr>start = 0, length_tr = 2, source = 7\<rparr>, \<lparr>start = 1, length_tr = 1, source = 8\<rparr>,
           \<lparr>start = 2, length_tr = 1, source = 9\<rparr>] \<and>
   \<not> overlap_free [\<lparr>start = 0, length_tr = 2, source = 7\<rparr>, \<lparr>start = 1, length_tr = 1, source = 8\<rparr>,
           \<lparr>start = 2, length_tr = 1, source = 9\<rparr>]"
  by (simp add: api_extend_aspect_def operands_def state_of_def heap_of_def taint_entry_def
      PyObject_CallMethodOneArg_extend_def get_tainting_map_def get_tainted_object_def
      allocate_tainted_object_def set_tainted_object_def add_ranges_shifted_def
      shift_taint_range_def record_ok_def range_ok_def overlaps_def)

end
